theory Spec2Isabelle
  imports Main "HOL-Library.Word"
begin

unbundle bit_operations_syntax

section \<open>Platforms and error numbers\<close>

text \<open>
  \<^verbatim>\<open>unix_like_serial.c\<close> is one source compiled for three operating systems; the
  preprocessor picks the branch. The platform is a parameter of every function whose
  body has a conditional section.
\<close>

datatype platform = Linux | Apple | SunOS

text \<open>
  Error numbers of \<^verbatim>\<open><errno.h>\<close>. \<^verbatim>\<open>EINTR\<close> is 4 on the three systems;
  \<^verbatim>\<open>EAGAIN\<close> is 11 on Linux and Solaris and 35 on macOS, and \<^verbatim>\<open>EWOULDBLOCK\<close>
  is the same number as \<^verbatim>\<open>EAGAIN\<close> on each of them.
\<close>

definition EINTR :: int where
  "EINTR = 4"

fun EAGAIN :: "platform \<Rightarrow> int" where
  "EAGAIN Linux = 11"
| "EAGAIN Apple = 35"
| "EAGAIN SunOS = 11"

definition EWOULDBLOCK :: "platform \<Rightarrow> int" where
  "EWOULDBLOCK p = EAGAIN p"

section \<open>The I/O engine\<close>

subsection \<open>readBytes\<close>

type_synonym jbyte = "8 word"

text \<open>
  What the descriptor does at one call of \<^verbatim>\<open>read(fd, buffer, n)\<close>: it has some bytes
  to deliver and leaves a value in \<^verbatim>\<open>errno\<close>, or the call fails (\<^verbatim>\<open>ret = -1\<close>) with
  an error number. \<^verbatim>\<open>read\<close> stores at most \<open>n\<close> bytes at the start of the buffer and
  returns their number; the rest of the buffer keeps its contents.
\<close>

datatype read_event = Delivers "jbyte list" int | Fails int

fun sys_read :: "nat \<Rightarrow> read_event \<Rightarrow> jbyte list \<Rightarrow> int \<times> int \<times> jbyte list" where
  "sys_read n (Delivers bs e) buf =
     (int (length (take n bs)), e, take n bs @ drop (length (take n bs)) buf)"
| "sys_read n (Fails e) buf = (- 1, e, buf)"

text \<open>
  \<^verbatim>\<open>jbyte buffer[1024]\<close> and \<^verbatim>\<open>jbyte final_buf[1024 * 3]\<close> are locals without an
  initialiser: their first contents are whatever the stack holds, here a function from
  the index to the byte found there.
\<close>

definition stack_array :: "nat \<Rightarrow> (nat \<Rightarrow> jbyte) \<Rightarrow> jbyte list" where
  "stack_array n g = map g [0..<n]"

text \<open>\<^verbatim>\<open>for(i = index; i < ret; i++) { final_buf[i] = buffer[i]; }\<close>\<close>

definition copy_partial :: "nat \<Rightarrow> nat \<Rightarrow> jbyte list \<Rightarrow> jbyte list \<Rightarrow> jbyte list" where
  "copy_partial index ret buffer final_buf =
     fold (\<lambda>i fb. fb[i := buffer ! i]) [index..<ret] final_buf"

text \<open>The value handed to Java: \<^verbatim>\<open>NULL\<close> or a new byte array.\<close>

datatype jbyteArray = JNull | JArray "jbyte list"

text \<open>
  The \<^verbatim>\<open>do { ... } while(1)\<close> loop. Each iteration calls \<^verbatim>\<open>read\<close> once, so the loop
  runs along the list of what the descriptor does at the successive calls; \<open>None\<close> says
  that the loop is still running when the list ends. The branches are the source's, in
  its order; an iteration in which no branch matches (a positive count with an
  \<^verbatim>\<open>errno\<close> that is neither 0 nor \<^verbatim>\<open>EINTR\<close>) falls through to the next iteration.
\<close>

fun readBytes_loop ::
  "platform \<Rightarrow> read_event list \<Rightarrow> nat \<Rightarrow> int \<Rightarrow> jbyte list \<Rightarrow> jbyte list \<Rightarrow> jbyteArray option"
where
  "readBytes_loop p [] index partialData buffer final_buf = None"
| "readBytes_loop p (ev # evs) index partialData buffer final_buf =
     (case sys_read 1024 ev buffer of (ret, errno, buffer') \<Rightarrow>
        if ret > 0 \<and> errno = 0 then
          (if partialData = 1 then
             Some (JArray (take (index + nat ret)
                             (copy_partial index (nat ret) buffer' final_buf)))
           else Some (JArray (take (nat ret) buffer')))
        else if ret > 0 \<and> errno = EINTR then
          readBytes_loop p evs (nat ret) 1 buffer'
            (copy_partial index (nat ret) buffer' final_buf)
        else if ret < 0 then
          (if errno = EAGAIN p \<or> errno = EWOULDBLOCK p then Some (JArray [])
           else if errno \<noteq> EINTR then Some JNull
           else readBytes_loop p evs index partialData buffer' final_buf)
        else if ret = 0 then Some (JArray [])
        else readBytes_loop p evs index partialData buffer' final_buf)"

text \<open>
  \<^verbatim>\<open>readBytes(env, obj, fd, count)\<close>: \<open>reads\<close> is what descriptor \<^verbatim>\<open>fd\<close> does at the
  successive calls of \<^verbatim>\<open>read\<close>, \<open>g\<^sub>b\<close> and \<open>g\<^sub>f\<close> are the first contents of the two
  local arrays.
\<close>

definition readBytes ::
  "platform \<Rightarrow> (nat \<Rightarrow> jbyte) \<Rightarrow> (nat \<Rightarrow> jbyte) \<Rightarrow> read_event list \<Rightarrow> int \<Rightarrow> jbyteArray option"
where
  "readBytes p g\<^sub>b g\<^sub>f reads count =
     readBytes_loop p reads 0 (- 1) (stack_array 1024 g\<^sub>b) (stack_array (1024 * 3) g\<^sub>f)"


subsection \<open>writeBytes\<close>

text \<open>
  What the descriptor does at one call of \<^verbatim>\<open>write(fd, p, count)\<close>: it accepts some
  of the bytes offered, at most \<^verbatim>\<open>count\<close>, or the call fails with an error number.
\<close>

datatype write_event = Accepts nat | WFails int

fun sys_write :: "nat \<Rightarrow> write_event \<Rightarrow> int \<times> int" where
  "sys_write count (Accepts n) = (int (min n count), 0)"
| "sys_write count (WFails e) = (- 1, e)"

text \<open>
  The outcome of a call: the value returned, the bytes the operating system has
  accepted, in order, and whether \<^verbatim>\<open>tcdrain\<close> was called.
\<close>

record write_result =
  wret :: int
  submitted :: "jbyte list"
  drained :: bool

text \<open>
  \<^verbatim>\<open>while((count > 0 && (ret = write(fd, &data_buf[index], count))) != count) { ... }\<close>

  The parentheses make the condition compare the truth value of
  \<^verbatim>\<open>count > 0 && ret\<close>, which is 0 or 1, with \<^verbatim>\<open>count\<close>. When \<^verbatim>\<open>count\<close> is 0 the
  right operand of \<^verbatim>\<open>&&\<close> is not evaluated and \<^verbatim>\<open>write\<close> is not called. \<open>None\<close> says
  that the loop is still running when the list of events ends.
\<close>

fun writeBytes_loop ::
  "jbyte list \<Rightarrow> write_event list \<Rightarrow> nat \<Rightarrow> nat \<Rightarrow> jbyte list \<Rightarrow> write_result option"
where
  "writeBytes_loop data_buf evs 0 index sub =
     Some \<lparr>wret = 0, submitted = sub, drained = True\<rparr>"
| "writeBytes_loop data_buf [] (Suc c) index sub = None"
| "writeBytes_loop data_buf (ev # evs) (Suc c) index sub =
     (case sys_write (Suc c) ev of (ret, errno) \<Rightarrow>
        let sub' = sub @ take (nat ret) (drop index data_buf) in
        if (if ret \<noteq> 0 then 1 else 0) \<noteq> int (Suc c) then
          if ret < 0 \<and> errno = EINTR then writeBytes_loop data_buf evs (Suc c) index sub'
          else if ret < 0 then Some \<lparr>wret = - 1 * errno, submitted = sub', drained = False\<rparr>
          else writeBytes_loop data_buf evs (Suc c - nat ret) (index + nat ret) sub'
        else Some \<lparr>wret = 0, submitted = sub', drained = True\<rparr>)"

text \<open>
  \<^verbatim>\<open>writeBytes(env, obj, fd, buffer, delay)\<close>. The two branches on \<^verbatim>\<open>delay\<close> hold the
  same loop.
\<close>

definition writeBytes :: "jbyte list \<Rightarrow> write_event list \<Rightarrow> int \<Rightarrow> write_result option" where
  "writeBytes buffer writes delay =
     (if delay = 0 then writeBytes_loop buffer writes (length buffer) 0 []
      else writeBytes_loop buffer writes (length buffer) 0 [])"

section \<open>The thread registry and the port monitor table\<close>

text \<open>\<^verbatim>\<open>#define MAX_NUM_THREADS 1024\<close>: the number of slots of each global table.\<close>

definition MAX_NUM_THREADS :: nat where
  "MAX_NUM_THREADS = 1024"

text \<open>
  \<^verbatim>\<open>struct com_thread_params\<close>, with the fields the source assigns. The fields
  \<^verbatim>\<open>jvm\<close> and \<^verbatim>\<open>mutex\<close> hold the addresses of the two globals of those names in
  every entry and are left out. A thread identity is a number, 0 when no thread is
  recorded; a Java reference is a number, 0 for \<^verbatim>\<open>NULL\<close>.
\<close>

record com_thread_params =
  fd :: int
  looper :: nat
  data_thread_id :: nat
  event_thread_id :: nat
  evfd :: int
  data_thread_exit :: int
  event_thread_exit :: int
  data_init_done :: int
  event_init_done :: int

text \<open>\<^verbatim>\<open>struct port_info\<close>; its \<^verbatim>\<open>fd\<close> field is \<open>port_fd\<close> here.\<close>

record port_info =
  portName :: string
  port_fd :: int
  port_listener :: nat
  thread_exit :: int
  thread_id :: nat

text \<open>
  The globals: \<^verbatim>\<open>fd_looper_info[MAX_NUM_THREADS]\<close> with \<^verbatim>\<open>dtp_index\<close> and
  \<^verbatim>\<open>port_monitor_info[MAX_NUM_THREADS]\<close> with \<^verbatim>\<open>port_monitor_index\<close>. Both
  arrays are initialised with \<^verbatim>\<open>{ {0} }\<close>, every field of every slot zero.
\<close>

record globals =
  fd_looper_info :: "com_thread_params list"
  dtp_index :: nat
  port_monitor_info :: "port_info list"
  port_monitor_index :: nat

definition zero_params :: com_thread_params where
  "zero_params = \<lparr>fd = 0, looper = 0, data_thread_id = 0, event_thread_id = 0, evfd = 0,
     data_thread_exit = 0, event_thread_exit = 0, data_init_done = 0, event_init_done = 0\<rparr>"

definition zero_port_info :: port_info where
  "zero_port_info = \<lparr>portName = [], port_fd = 0, port_listener = 0, thread_exit = 0,
     thread_id = 0\<rparr>"

definition initial_globals :: globals where
  "initial_globals = \<lparr>fd_looper_info = replicate MAX_NUM_THREADS zero_params, dtp_index = 0,
     port_monitor_info = replicate MAX_NUM_THREADS zero_port_info, port_monitor_index = 0\<rparr>"

text \<open>
  \<^verbatim>\<open>for (x=0; x < MAX_NUM_THREADS; x++) { if(ptr->fd == fd) { ...; break; } ptr++; }\<close>

  \<open>ptr\<close> starts at slot 0 and moves with \<open>x\<close>. The loop leaves both at the first slot
  whose descriptor is \<open>f\<close>, and at \<^verbatim>\<open>MAX_NUM_THREADS\<close>, one past the last slot, when no
  slot has it.
\<close>

primrec scan :: "int \<Rightarrow> int list \<Rightarrow> nat" where
  "scan f [] = 0"
| "scan f (d # ds) = (if d = f then 0 else Suc (scan f ds))"

definition find_slot :: "int \<Rightarrow> com_thread_params list \<Rightarrow> nat" where
  "find_slot f tbl = scan f (map fd (take MAX_NUM_THREADS tbl))"

definition find_port_slot :: "int \<Rightarrow> port_info list \<Rightarrow> nat" where
  "find_port_slot f tbl = scan f (map port_fd (take MAX_NUM_THREADS tbl))"

text \<open>
  An access to slot \<open>n\<close> of a table with \<open>n\<close> not below \<^verbatim>\<open>MAX_NUM_THREADS\<close> is
  outside the array. C gives it no meaning; the model stops there and reports the slot.
\<close>

datatype fault = OutOfBounds nat

text \<open>
  What the runtime does for a registration: \<^verbatim>\<open>NewGlobalRef\<close> gives a reference or
  \<^verbatim>\<open>NULL\<close>, \<^verbatim>\<open>pthread_create\<close> returns a value, leaves an error number and stores
  the identity of the new thread.
\<close>

record spawn_env =
  new_global_ref :: nat
  create_ret :: int
  create_errno :: int
  create_tid :: nat

text \<open>
  \<^verbatim>\<open>setUpDataLooperThread(env, obj, fd, looper)\<close> and its twin for the event thread;
  \<open>f\<close> is \<^verbatim>\<open>fd\<close>, and \<^verbatim>\<open>looper\<close> is only passed to \<^verbatim>\<open>NewGlobalRef\<close>. Each
  function has two parts. The first, from \<^verbatim>\<open>pthread_mutex_lock\<close> to
  \<^verbatim>\<open>pthread_mutex_unlock\<close>, reads and writes the table and creates the thread; it
  returns on a failure (\<open>Returns\<close>) or goes on to the second part with the slot that
  was passed to the thread (\<open>AwaitsInit\<close>). The second part polls a flag of that slot.
\<close>

datatype setup_result = Returns int | AwaitsInit nat

definition new_params :: "int \<Rightarrow> nat \<Rightarrow> com_thread_params" where
  "new_params f ref = \<lparr>fd = f, looper = ref, data_thread_id = 0, event_thread_id = 0,
     evfd = 0, data_thread_exit = 0, event_thread_exit = 0, data_init_done = 0,
     event_init_done = 0\<rparr>"

definition setUpDataLooperThread_locked ::
  "globals \<Rightarrow> spawn_env \<Rightarrow> int \<Rightarrow> fault + (setup_result \<times> globals)"
where
  "setUpDataLooperThread_locked g env f =
     (let x = find_slot f (fd_looper_info g) in
      if x < MAX_NUM_THREADS then
        \<comment> \<open>entry found: \<^verbatim>\<open>arg = &fd_looper_info[x]\<close>\<close>
        (if create_ret env < 0 then Inr (Returns (- 1 * create_errno env), g)
         else Inr (AwaitsInit x,
                g\<lparr>fd_looper_info := (fd_looper_info g)
                     [x := (fd_looper_info g ! x)\<lparr>data_thread_id := create_tid env\<rparr>]\<rparr>))
      else if new_global_ref env = 0 then Inr (Returns (- 240), g)
      else if MAX_NUM_THREADS \<le> dtp_index g then Inl (OutOfBounds (dtp_index g))
      else
        \<comment> \<open>\<^verbatim>\<open>fd_looper_info[dtp_index] = params; arg = &fd_looper_info[dtp_index]\<close>\<close>
        (let tbl = (fd_looper_info g)[dtp_index g := new_params f (new_global_ref env)] in
         if create_ret env < 0 then
           Inr (Returns (- 1 * create_errno env), g\<lparr>fd_looper_info := tbl\<rparr>)
         else Inr (AwaitsInit (dtp_index g),
                g\<lparr>fd_looper_info := tbl
                     [dtp_index g := (tbl ! dtp_index g)\<lparr>data_thread_id := create_tid env\<rparr>],
                  dtp_index := dtp_index g + 1\<rparr>)))"

definition setUpEventLooperThread_locked ::
  "globals \<Rightarrow> spawn_env \<Rightarrow> int \<Rightarrow> fault + (setup_result \<times> globals)"
where
  "setUpEventLooperThread_locked g env f =
     (let x = find_slot f (fd_looper_info g) in
      if x < MAX_NUM_THREADS then
        (if create_ret env < 0 then Inr (Returns (- 1 * create_errno env), g)
         else Inr (AwaitsInit x,
                g\<lparr>fd_looper_info := (fd_looper_info g)
                     [x := (fd_looper_info g ! x)\<lparr>event_thread_id := create_tid env\<rparr>]\<rparr>))
      else if new_global_ref env = 0 then Inr (Returns (- 240), g)
      else if MAX_NUM_THREADS \<le> dtp_index g then Inl (OutOfBounds (dtp_index g))
      else
        (let tbl = (fd_looper_info g)[dtp_index g := new_params f (new_global_ref env)] in
         if create_ret env < 0 then
           Inr (Returns (- 1 * create_errno env), g\<lparr>fd_looper_info := tbl\<rparr>)
         else Inr (AwaitsInit (dtp_index g),
                g\<lparr>fd_looper_info := tbl
                     [dtp_index g := (tbl ! dtp_index g)\<lparr>event_thread_id := create_tid env\<rparr>],
                  dtp_index := dtp_index g + 1\<rparr>)))"

text \<open>
  After the unlock the caller polls the flag while the new thread runs:

  \<^verbatim>\<open>while(0 == arg->data_init_done) { }\<close>
  \<^verbatim>\<open>if(1 == arg->data_init_done) { return 0; } else { return arg->data_init_done; }\<close>

  What the threads do to the flag, seen from the caller: before each load of the flag
  a value has been stored in it since the previous load (\<open>Some v\<close>) or nothing has
  been stored (\<open>None\<close>); after the end of the list nothing more is stored. A load
  gives the value stored last, and the value the slot held at the unlock as long as
  nothing has been stored.
\<close>

fun load_flag :: "int option list \<Rightarrow> int \<Rightarrow> int \<times> int option list" where
  "load_flag [] cur = (cur, [])"
| "load_flag (None # ss) cur = (cur, ss)"
| "load_flag (Some v # ss) cur = (v, ss)"

text \<open>
  The \<^verbatim>\<open>while\<close> loop, one load for each test: it ends at the first load that is not 0,
  with the value loaded and the stores still to come. \<open>None\<close> says that the loop
  never ends: the flag is 0 and nothing more is stored.
\<close>

fun poll_init_done :: "int option list \<Rightarrow> int \<Rightarrow> (int \<times> int option list) option" where
  "poll_init_done [] cur = (if 0 = cur then None else Some (cur, []))"
| "poll_init_done (None # ss) cur =
     (if 0 = cur then poll_init_done ss cur else Some (cur, ss))"
| "poll_init_done (Some v # ss) cur =
     (if 0 = v then poll_init_done ss v else Some (v, ss))"

text \<open>
  The loop and the \<^verbatim>\<open>if\<close> after it, which loads the flag for the comparison with 1
  and once more for the value to return. The result is the value returned, \<open>None\<close>
  when the call never returns, with the value of the flag at that moment.
\<close>

definition await_init_done :: "int option list \<Rightarrow> int \<Rightarrow> int option \<times> int" where
  "await_init_done stores cur =
     (case poll_init_done stores cur of
        None \<Rightarrow> (None, 0)
      | Some (v, ss) \<Rightarrow>
          (case load_flag ss v of
             (v2, ss2) \<Rightarrow>
               if 1 = v2 then (Some 0, v2)
               else (case load_flag ss2 v2 of (v3, ss3) \<Rightarrow> (Some v3, v3))))"

text \<open>
  The whole functions. \<open>stores\<close> is what is stored in \<^verbatim>\<open>data_init_done\<close>
  (\<^verbatim>\<open>event_init_done\<close> for the event thread) of the slot after the unlock.
\<close>

definition setUpDataLooperThread ::
  "globals \<Rightarrow> spawn_env \<Rightarrow> int option list \<Rightarrow> int \<Rightarrow> fault + (int option \<times> globals)"
where
  "setUpDataLooperThread g env stores f =
     (case setUpDataLooperThread_locked g env f of
        Inl flt \<Rightarrow> Inl flt
      | Inr (Returns r, g') \<Rightarrow> Inr (Some r, g')
      | Inr (AwaitsInit x, g') \<Rightarrow>
          (case await_init_done stores (data_init_done (fd_looper_info g' ! x)) of
             (r, v) \<Rightarrow>
               Inr (r, g'\<lparr>fd_looper_info := (fd_looper_info g')
                            [x := (fd_looper_info g' ! x)\<lparr>data_init_done := v\<rparr>]\<rparr>)))"

definition setUpEventLooperThread ::
  "globals \<Rightarrow> spawn_env \<Rightarrow> int option list \<Rightarrow> int \<Rightarrow> fault + (int option \<times> globals)"
where
  "setUpEventLooperThread g env stores f =
     (case setUpEventLooperThread_locked g env f of
        Inl flt \<Rightarrow> Inl flt
      | Inr (Returns r, g') \<Rightarrow> Inr (Some r, g')
      | Inr (AwaitsInit x, g') \<Rightarrow>
          (case await_init_done stores (event_init_done (fd_looper_info g' ! x)) of
             (r, v) \<Rightarrow>
               Inr (r, g'\<lparr>fd_looper_info := (fd_looper_info g')
                            [x := (fd_looper_info g' ! x)\<lparr>event_init_done := v\<rparr>]\<rparr>)))"

text \<open>
  What the runtime does for a teardown: the values returned by \<^verbatim>\<open>pthread_kill\<close>
  (where the function calls it) and by \<^verbatim>\<open>pthread_join\<close>. The value returned by the
  \<^verbatim>\<open>write\<close> that wakes the data thread is stored in \<^verbatim>\<open>ret\<close> and overwritten by the
  join. The model has the stores of the teardown function itself; what the thread being
  joined stores in its slot before it ends is not part of these functions.
\<close>

record join_env =
  kill_ret :: int
  join_ret :: int

definition destroyDataLooperThread :: "globals \<Rightarrow> join_env \<Rightarrow> int \<Rightarrow> fault + (int \<times> globals)" where
  "destroyDataLooperThread g env f =
     (let x = find_slot f (fd_looper_info g) in
      \<comment> \<open>\<^verbatim>\<open>ptr->data_thread_exit = 1\<close>, with \<open>ptr\<close> where the scan left it\<close>
      if MAX_NUM_THREADS \<le> x then Inl (OutOfBounds x)
      else
        (let tbl1 = (fd_looper_info g)[x := (fd_looper_info g ! x)\<lparr>data_thread_exit := 1\<rparr>] in
         if join_ret env \<noteq> 0 then Inr (- 1 * join_ret env, g\<lparr>fd_looper_info := tbl1\<rparr>)
         else
           (let tbl2 = tbl1[x := (tbl1 ! x)\<lparr>data_thread_id := 0\<rparr>];
                tbl3 = (if event_thread_id (tbl2 ! x) = 0
                        then tbl2[x := (tbl2 ! x)\<lparr>fd := - 1\<rparr>] else tbl2)
            in Inr (0, g\<lparr>fd_looper_info := tbl3\<rparr>))))"

definition destroyEventLooperThread :: "globals \<Rightarrow> join_env \<Rightarrow> int \<Rightarrow> fault + (int \<times> globals)" where
  "destroyEventLooperThread g env f =
     (let x = find_slot f (fd_looper_info g) in
      \<comment> \<open>\<^verbatim>\<open>ptr->event_thread_exit = 1\<close>\<close>
      if MAX_NUM_THREADS \<le> x then Inl (OutOfBounds x)
      else
        (let tbl1 = (fd_looper_info g)[x := (fd_looper_info g ! x)\<lparr>event_thread_exit := 1\<rparr>] in
         if kill_ret env \<noteq> 0 then Inr (- 1 * kill_ret env, g\<lparr>fd_looper_info := tbl1\<rparr>)
         else if join_ret env \<noteq> 0 then Inr (- 1 * join_ret env, g\<lparr>fd_looper_info := tbl1\<rparr>)
         else
           (let tbl2 = tbl1[x := (tbl1 ! x)\<lparr>event_thread_id := 0\<rparr>];
                tbl3 = (if data_thread_id (tbl2 ! x) = 0
                        then tbl2[x := (tbl2 ! x)\<lparr>fd := - 1\<rparr>] else tbl2)
            in Inr (0, g\<lparr>fd_looper_info := tbl3\<rparr>))))"

text \<open>
  \<^verbatim>\<open>registerPortMonitorListener(env, obj, fd, portName, listener)\<close>. The local
  \<^verbatim>\<open>params\<close> has no initialiser and its \<^verbatim>\<open>thread_id\<close> is not assigned before the
  copy into the table: \<open>tid\<^sub>0\<close> is what that field holds then.
\<close>

definition registerPortMonitorListener ::
  "globals \<Rightarrow> spawn_env \<Rightarrow> nat \<Rightarrow> int \<Rightarrow> string \<Rightarrow> fault + (int \<times> globals)"
where
  "registerPortMonitorListener g env tid\<^sub>0 f name =
     (if new_global_ref env = 0 then Inr (- 240, g)
      else if MAX_NUM_THREADS \<le> port_monitor_index g then
        Inl (OutOfBounds (port_monitor_index g))
      else
        (let i = port_monitor_index g;
             tbl = (port_monitor_info g)
                     [i := \<lparr>portName = name, port_fd = f, port_listener = new_global_ref env,
                            thread_exit = 0, thread_id = tid\<^sub>0\<rparr>]
         in if create_ret env < 0 then
              Inr (- 1 * create_errno env, g\<lparr>port_monitor_info := tbl\<rparr>)
            else Inr (0, g\<lparr>port_monitor_info := tbl[i := (tbl ! i)\<lparr>thread_id := create_tid env\<rparr>],
                          port_monitor_index := i + 1\<rparr>)))"

text \<open>
  \<^verbatim>\<open>unregisterPortMonitorListener(env, obj, fd)\<close>: the Linux body signals the thread
  before it joins it, the body for macOS and Solaris only joins.
\<close>

definition unregisterPortMonitorListener ::
  "platform \<Rightarrow> globals \<Rightarrow> join_env \<Rightarrow> int \<Rightarrow> fault + (int \<times> globals)"
where
  "unregisterPortMonitorListener p g env f =
     (let x = find_port_slot f (port_monitor_info g) in
      \<comment> \<open>\<^verbatim>\<open>ptr->thread_exit = 1\<close>\<close>
      if MAX_NUM_THREADS \<le> x then Inl (OutOfBounds x)
      else
        (let tbl1 = (port_monitor_info g)[x := (port_monitor_info g ! x)\<lparr>thread_exit := 1\<rparr>] in
         if p = Linux \<and> kill_ret env \<noteq> 0 then
           Inr (- 1 * kill_ret env, g\<lparr>port_monitor_info := tbl1\<rparr>)
         else if join_ret env \<noteq> 0 then
           Inr (- 1 * join_ret env, g\<lparr>port_monitor_info := tbl1\<rparr>)
         else Inr (0, g\<lparr>port_monitor_info :=
                        tbl1[x := (tbl1 ! x)\<lparr>thread_id := 0, port_fd := - 1\<rparr>]\<rparr>)))"

text \<open>
  A registry to try the functions on: descriptor 7 has a slot with a data thread and an
  event thread, and a port monitor; no other descriptor is registered.
\<close>

definition example_globals :: globals where
  "example_globals =
     \<lparr>fd_looper_info = (replicate MAX_NUM_THREADS zero_params)
        [0 := (new_params 7 1)\<lparr>data_thread_id := 11, event_thread_id := 12\<rparr>],
      dtp_index = 1,
      port_monitor_info = (replicate MAX_NUM_THREADS zero_port_info)
        [0 := \<lparr>portName = ''/dev/ttyUSB0'', port_fd = 7, port_listener = 2, thread_exit = 0,
               thread_id = 13\<rparr>],
      port_monitor_index = 1\<rparr>"

text \<open>The same registry with no event thread recorded for descriptor 7.\<close>

definition example_data_only :: globals where
  "example_data_only =
     example_globals\<lparr>fd_looper_info := (replicate MAX_NUM_THREADS zero_params)
        [0 := (new_params 7 1)\<lparr>data_thread_id := 11\<rparr>]\<rparr>"

text \<open>
  A runtime in which the registration goes through: the reference and the thread are
  created, and the thread gets identity \<open>t\<close>.
\<close>

definition ok_spawn :: "nat \<Rightarrow> spawn_env" where
  "ok_spawn t = \<lparr>new_global_ref = 1, create_ret = 0, create_errno = 0, create_tid = t\<rparr>"

text \<open>
  Data listeners registered for a list of descriptors in turn, each with a runtime in
  which the registration goes through and a thread that stores 1 in its flag before the
  caller's first load.
\<close>

fun register_data :: "globals \<Rightarrow> int list \<Rightarrow> fault + globals" where
  "register_data g [] = Inr g"
| "register_data g (f # fs) =
     (case setUpDataLooperThread g (ok_spawn (nat f)) [Some 1] f of
        Inl flt \<Rightarrow> Inl flt
      | Inr (r, g') \<Rightarrow> register_data g' fs)"

text \<open>
  The registry after \<open>n\<close> registrations of the descriptors 3, 4, ... from the initial
  state, as far as the proofs below need it.
\<close>

definition filled :: "nat \<Rightarrow> globals \<Rightarrow> bool" where
  "filled n g \<longleftrightarrow> length (fd_looper_info g) = MAX_NUM_THREADS \<and> dtp_index g = n
     \<and> fd ` set (fd_looper_info g) \<subseteq> insert 0 {3 ..< 3 + int n}"

text \<open>
  A monitor entry for the device \<^verbatim>\<open>/dev/ttyUSB0\<close> open on descriptor 5, and the
  globals after one and after two registrations of a monitor for it.
\<close>

definition usb0_entry :: "nat \<Rightarrow> port_info" where
  "usb0_entry t = \<lparr>portName = ''/dev/ttyUSB0'', port_fd = 5, port_listener = 1, thread_exit = 0,
     thread_id = t\<rparr>"

definition monitor_once :: globals where
  "monitor_once = initial_globals
     \<lparr>port_monitor_info := (replicate MAX_NUM_THREADS zero_port_info)[0 := usb0_entry 21],
      port_monitor_index := 1\<rparr>"

definition monitor_twice :: globals where
  "monitor_twice = initial_globals
     \<lparr>port_monitor_info := (replicate MAX_NUM_THREADS zero_port_info)
        [0 := usb0_entry 21, 1 := usb0_entry 22],
      port_monitor_index := 2\<rparr>"

section \<open>The configuration codec\<close>

text \<open>
  The control block. \<^verbatim>\<open>tcflag_t\<close> and \<^verbatim>\<open>speed_t\<close> are taken at 32 bits; every
  constant the functions use fits, and the functions only set and clear bits. The
  speed fields are those of Linux's \<^verbatim>\<open>struct termios2\<close> and of macOS's
  \<^verbatim>\<open>struct termios\<close>; the functions store to them on Linux only.
\<close>

type_synonym tcflag_t = "32 word"

record termios =
  c_iflag :: tcflag_t
  c_oflag :: tcflag_t
  c_cflag :: tcflag_t
  c_lflag :: tcflag_t
  c_cc :: "8 word list"
  c_ispeed :: "32 word"
  c_ospeed :: "32 word"

text \<open>
  The constants of the platform's \<^verbatim>\<open><termios.h>\<close> that the two functions name. The
  header is not part of the repository, so the constants are a parameter. \<open>STICK\<close> is
  \<^verbatim>\<open>CMSPAR\<close> where the header defines it, otherwise \<^verbatim>\<open>PAREXT\<close> where the header
  defines that, otherwise nothing, as the \<^verbatim>\<open>#if defined(CMSPAR) ... #elif
  defined(PAREXT)\<close> sections have it. \<open>Bspeed r\<close> is the macro \<^verbatim>\<open>B\<close>\<open>r\<close>, for the
  rates \<open>r\<close> that have one in the \<^verbatim>\<open>switch\<close>.
\<close>

record termios_h =
  CBAUD :: tcflag_t
  BOTHER :: tcflag_t
  CSIZE :: tcflag_t
  CS5 :: tcflag_t
  CS6 :: tcflag_t
  CS7 :: tcflag_t
  CS8 :: tcflag_t
  CSTOPB :: tcflag_t
  PARENB :: tcflag_t
  PARODD :: tcflag_t
  STICK :: "tcflag_t option"
  INPCK :: tcflag_t
  IGNPAR :: tcflag_t
  PARMRK :: tcflag_t
  IMAXBEL :: tcflag_t
  IXON :: tcflag_t
  IXOFF :: tcflag_t
  CRTSCTS :: tcflag_t
  CRTS_IFLOW :: tcflag_t
  CCTS_OFLOW :: tcflag_t
  CRTSXOFF :: tcflag_t
  VSTART :: nat
  VSTOP :: nat
  Bspeed :: "int \<Rightarrow> int"

text \<open>The outcome of a system call that the code tests with \<^verbatim>\<open>ret < 0\<close>.\<close>

datatype os_result = Done | Failed int

text \<open>
  What the system does in one call of a configuration function: \<open>get_attr\<close> is
  \<^verbatim>\<open>tcgetattr\<close> (\<^verbatim>\<open>ioctl TCGETS2\<close> on Linux), the error number or the current
  control block; \<open>set_custom_baud\<close> is the \<^verbatim>\<open>ioctl\<close> of the custom baud branch
  (\<^verbatim>\<open>TCSETS2\<close> on Linux, \<^verbatim>\<open>IOSSIOSPEED\<close> on macOS); \<open>cfsetspeed\<close> is the library
  function of that name, the error number or the control block with the speed stored;
  \<open>set_attr\<close> is the last \<^verbatim>\<open>tcsetattr\<close> (\<^verbatim>\<open>ioctl TCSETS2\<close> on Linux).
\<close>

record config_env =
  get_attr :: "int + termios"
  set_custom_baud :: os_result
  cfsetspeed :: "termios \<Rightarrow> int \<Rightarrow> int + termios"
  set_attr :: os_result

text \<open>
  The outcome of a configuration call: the value returned, the control block that the
  last successful \<^verbatim>\<open>tcsetattr\<close> or \<^verbatim>\<open>TCSETS2\<close> gave to the device, the speed that a
  successful \<^verbatim>\<open>IOSSIOSPEED\<close> gave to it, and whether the queues were flushed.
\<close>

record config_result =
  cret :: int
  device_cfg :: "termios option"
  device_speed :: "32 word option"
  flushed :: bool

definition failed_with :: "int \<Rightarrow> termios option \<Rightarrow> 32 word option \<Rightarrow> config_result" where
  "failed_with errno dc ds =
     \<lparr>cret = - 1 * errno, device_cfg = dc, device_speed = ds, flushed = False\<rparr>"

text \<open>The \<^verbatim>\<open>switch (baudRateTranslated)\<close> of the standard rates.\<close>

definition standard_baud :: "termios_h \<Rightarrow> int \<Rightarrow> int" where
  "standard_baud h r =
     (if r \<in> set [0, 50, 75, 110, 134, 150, 200, 300, 600, 1200, 1800, 2400, 4800, 9600,
                   19200, 38400, 57600, 115200, 230400]
      then Bspeed h r
      else if r \<in> set [14400, 28800, 56000, 128000, 153600, 256000, 460800, 500000, 576000,
                        921600, 1000000, 1152000, 1500000, 2000000, 2500000, 3000000,
                        3500000, 4000000]
      then r
      else - 1)"

text \<open>Data bits, stop bits and parity, the part of the function common to the platforms.\<close>

definition set_data_bits :: "termios_h \<Rightarrow> int \<Rightarrow> termios \<Rightarrow> termios" where
  "set_data_bits h dataBits cfg =
     (let c = c_cflag cfg AND NOT (CSIZE h) in
      cfg\<lparr>c_cflag :=
        (if dataBits = 5 then c OR CS5 h
         else if dataBits = 6 then c OR CS6 h
         else if dataBits = 7 then c OR CS7 h
         else if dataBits = 8 then c OR CS8 h
         else c)\<rparr>)"

definition set_stop_bits :: "termios_h \<Rightarrow> int \<Rightarrow> termios \<Rightarrow> termios" where
  "set_stop_bits h stopBits cfg =
     (if stopBits = 1 then cfg\<lparr>c_cflag := c_cflag cfg AND NOT (CSTOPB h)\<rparr>
      else cfg\<lparr>c_cflag := c_cflag cfg OR CSTOPB h\<rparr>)"

definition set_parity :: "termios_h \<Rightarrow> int \<Rightarrow> termios \<Rightarrow> termios" where
  "set_parity h parity cfg =
     (let stick = (case STICK h of None \<Rightarrow> 0 | Some m \<Rightarrow> m);
          c = c_cflag cfg AND NOT (PARENB h OR PARODD h OR stick)
      in if parity = 1 then cfg\<lparr>c_cflag := c AND NOT (PARENB h)\<rparr>
         else if parity = 2 then
           cfg\<lparr>c_cflag := c OR (PARENB h OR PARODD h), c_iflag := c_iflag cfg OR INPCK h\<rparr>
         else if parity = 3 then
           cfg\<lparr>c_cflag := (c OR PARENB h) AND NOT (PARODD h),
               c_iflag := c_iflag cfg OR INPCK h\<rparr>
         else if parity = 4 then
           cfg\<lparr>c_cflag := (case STICK h of None \<Rightarrow> c
                            | Some m \<Rightarrow> c OR (PARENB h OR PARODD h OR m)),
               c_iflag := c_iflag cfg OR INPCK h\<rparr>
         else if parity = 5 then
           cfg\<lparr>c_cflag := (case STICK h of None \<Rightarrow> c | Some m \<Rightarrow> c OR (PARENB h OR m))
                            AND NOT (PARODD h),
               c_iflag := c_iflag cfg OR INPCK h\<rparr>
         else cfg\<lparr>c_cflag := c\<rparr>)"

text \<open>
  The end of \<^verbatim>\<open>configureComPortData\<close>: the control block is given to the device and
  the queues are flushed. On Linux the value returned by \<^verbatim>\<open>ioctl TCSETS2\<close> is not
  looked at. \<open>dc\<close> and \<open>ds\<close> are what the device has been given before.
\<close>

definition apply_data_settings ::
  "platform \<Rightarrow> config_env \<Rightarrow> termios option \<Rightarrow> 32 word option \<Rightarrow> termios \<Rightarrow> config_result"
where
  "apply_data_settings p env dc ds cfg =
     (case set_attr env of
        Done \<Rightarrow> \<lparr>cret = 0, device_cfg = Some cfg, device_speed = ds, flushed = True\<rparr>
      | Failed e \<Rightarrow>
          if p = Linux then \<lparr>cret = 0, device_cfg = dc, device_speed = ds, flushed = True\<rparr>
          else failed_with e dc ds)"

text \<open>
  \<^verbatim>\<open>configureComPortData(env, obj, fd, dataBits, stopBits, parity, baudRateTranslated,
  custBaudTranslated)\<close>. The custom baud rate (251) comes first: Linux stores it in the
  control block and sets it, macOS hands it to \<^verbatim>\<open>IOSSIOSPEED\<close>, and the Solaris
  section prints a message and has no other statement.
\<close>

definition configureComPortData ::
  "platform \<Rightarrow> termios_h \<Rightarrow> config_env \<Rightarrow> int \<Rightarrow> int \<Rightarrow> int \<Rightarrow> int \<Rightarrow> int \<Rightarrow> config_result"
where
  "configureComPortData p h env dataBits stopBits parity baudRateTranslated custBaudTranslated =
     (case get_attr env of
        Inl e \<Rightarrow> failed_with e None None
      | Inr currentconfig \<Rightarrow>
          let finish = (\<lambda>dc ds cfg.
                apply_data_settings p env dc ds
                  (set_parity h parity (set_stop_bits h stopBits (set_data_bits h dataBits cfg))))
          in
          if baudRateTranslated = 251 then
            (case p of
               Linux \<Rightarrow>
                 (let cfg = currentconfig
                        \<lparr>c_cflag := (c_cflag currentconfig AND NOT (CBAUD h)) OR BOTHER h,
                         c_ispeed := word_of_int custBaudTranslated,
                         c_ospeed := word_of_int custBaudTranslated\<rparr>
                  in case set_custom_baud env of
                       Failed e \<Rightarrow> failed_with e None None
                     | Done \<Rightarrow> finish (Some cfg) None cfg)
             | Apple \<Rightarrow>
                 (case set_custom_baud env of
                    Failed e \<Rightarrow> failed_with e None None
                  | Done \<Rightarrow> finish None (Some (word_of_int custBaudTranslated)) currentconfig)
             | SunOS \<Rightarrow> finish None None currentconfig)
          else
            (let baud = standard_baud h baudRateTranslated in
             if p = Linux then
               finish None None
                 (currentconfig\<lparr>c_ispeed := word_of_int baud, c_ospeed := word_of_int baud\<rparr>)
             else
               (case cfsetspeed env currentconfig baud of
                  Inl e \<Rightarrow> failed_with e None None
                | Inr cfg \<Rightarrow> finish None None cfg)))"

text \<open>The flow control section of \<^verbatim>\<open>configureComPortControl\<close>.\<close>

definition set_flow_control ::
  "platform \<Rightarrow> termios_h \<Rightarrow> int \<Rightarrow> 16 word \<Rightarrow> 16 word \<Rightarrow> termios \<Rightarrow> termios"
where
  "set_flow_control p h flowctrl xon xoff cfg =
     (if flowctrl = 1 then
        (let cfg1 = cfg\<lparr>c_iflag := c_iflag cfg AND NOT (IXON h OR IXOFF h)\<rparr> in
         case p of
           Linux \<Rightarrow> cfg1\<lparr>c_cflag := c_cflag cfg1 AND NOT (CRTSCTS h)\<rparr>
         | Apple \<Rightarrow> cfg1\<lparr>c_cflag := ((c_cflag cfg1 AND NOT (CRTSCTS h))
                                      AND NOT (CRTS_IFLOW h)) AND NOT (CCTS_OFLOW h)\<rparr>
         | SunOS \<Rightarrow> cfg1\<lparr>c_cflag := (c_cflag cfg1 AND NOT (CRTSXOFF h)) AND NOT (CRTSCTS h)\<rparr>)
      else if flowctrl = 2 then
        (let cfg1 = cfg\<lparr>c_iflag := c_iflag cfg AND NOT (IXON h OR IXOFF h)\<rparr> in
         case p of
           Linux \<Rightarrow> cfg1\<lparr>c_cflag := c_cflag cfg1 OR CRTSCTS h\<rparr>
         | Apple \<Rightarrow> cfg1\<lparr>c_cflag := ((c_cflag cfg1 OR CRTSCTS h) OR CRTS_IFLOW h)
                                      OR CCTS_OFLOW h\<rparr>
         | SunOS \<Rightarrow> cfg1\<lparr>c_cflag := (c_cflag cfg1 OR CRTSXOFF h) OR CRTSCTS h\<rparr>)
      else if flowctrl = 3 then
        cfg\<lparr>c_cflag := c_cflag cfg AND NOT (CRTSCTS h),
            c_iflag := c_iflag cfg OR (IXON h OR IXOFF h),
            c_cc := (c_cc cfg)[VSTART h := ucast xon, VSTOP h := ucast xoff]\<rparr>
      else cfg)"

text \<open>
  \<^verbatim>\<open>configureComPortControl(env, obj, fd, flowctrl, xon, xoff, ParFraError,
  overFlowErr)\<close>.
\<close>

definition configureComPortControl ::
  "platform \<Rightarrow> termios_h \<Rightarrow> config_env \<Rightarrow> int \<Rightarrow> 16 word \<Rightarrow> 16 word \<Rightarrow> bool \<Rightarrow> bool
     \<Rightarrow> config_result"
where
  "configureComPortControl p h env flowctrl xon xoff ParFraError overFlowErr =
     (case get_attr env of
        Inl e \<Rightarrow> failed_with e None None
      | Inr currentconfig \<Rightarrow>
          let cfg1 = set_flow_control p h flowctrl xon xoff currentconfig in
          if ParFraError \<and> c_cflag cfg1 AND PARENB h \<noteq> PARENB h then
            \<lparr>cret = - 242, device_cfg = None, device_speed = None, flushed = False\<rparr>
          else
            (let cfg2 = (if ParFraError
                         then cfg1\<lparr>c_iflag := (c_iflag cfg1 AND NOT (IGNPAR h)) OR PARMRK h\<rparr>
                         else cfg1\<lparr>c_iflag := (((c_iflag cfg1 OR IGNPAR h) OR PARMRK h)
                                                  AND NOT (IGNPAR h)) AND NOT (PARMRK h)\<rparr>);
                 cfg3 = (if overFlowErr then cfg2\<lparr>c_iflag := c_iflag cfg2 OR IMAXBEL h\<rparr>
                         else cfg2\<lparr>c_iflag := c_iflag cfg2 AND NOT (IMAXBEL h)\<rparr>)
             in case set_attr env of
                  Failed e \<Rightarrow> failed_with e None None
                | Done \<Rightarrow> \<lparr>cret = 0, device_cfg = Some cfg3, device_speed = None,
                           flushed = True\<rparr>))"

text \<open>
  The constants of Solaris's \<^verbatim>\<open><sys/termios.h>\<close>. The header has no \<^verbatim>\<open>CMSPAR\<close>
  and defines \<^verbatim>\<open>PAREXT\<close>; \<^verbatim>\<open>BOTHER\<close>, \<^verbatim>\<open>CRTS_IFLOW\<close> and \<^verbatim>\<open>CCTS_OFLOW\<close> are not
  in it and not used on this platform. \<^verbatim>\<open>CRTSCTS\<close> (020000000000) enables hardware
  flow control on output, \<^verbatim>\<open>CRTSXOFF\<close> (010000000000) on input.
\<close>

definition sunos_termios_h :: "(int \<Rightarrow> int) \<Rightarrow> termios_h" where
  "sunos_termios_h B =
     \<lparr>CBAUD = 0xF, BOTHER = 0, CSIZE = 0x30, CS5 = 0, CS6 = 0x10, CS7 = 0x20, CS8 = 0x30,
      CSTOPB = 0x40, PARENB = 0x100, PARODD = 0x200, STICK = Some 0x100000, INPCK = 0x10,
      IGNPAR = 0x4, PARMRK = 0x8, IMAXBEL = 0x2000, IXON = 0x400, IXOFF = 0x1000,
      CRTSCTS = 0x80000000, CRTS_IFLOW = 0, CCTS_OFLOW = 0, CRTSXOFF = 0x40000000,
      VSTART = 8, VSTOP = 9, Bspeed = B\<rparr>"

text \<open>A control block with every flag clear and 19 control characters.\<close>

definition zero_termios :: termios where
  "zero_termios = \<lparr>c_iflag = 0, c_oflag = 0, c_cflag = 0, c_lflag = 0,
     c_cc = replicate 19 0, c_ispeed = 0, c_ospeed = 0\<rparr>"

section \<open>Properties of the I/O engine\<close>

subsection \<open>The local arrays\<close>

lemma stack_array_length [simp]: "length (stack_array n g) = n"
  by (simp add: stack_array_def)

lemma stack_array_nth: "i < n \<Longrightarrow> stack_array n g ! i = g i"
  by (simp add: stack_array_def)

lemma copy_partial_length [simp]: "length (copy_partial idx r buf fb) = length fb"
  unfolding copy_partial_def by (induction r arbitrary: fb) auto

text \<open>
  The copy loop writes the positions from \<open>idx\<close> up to \<open>r\<close> (excluded) and no other:
  the byte stored at position \<open>i\<close> is the byte at the same position \<open>i\<close> of the read
  buffer.
\<close>

lemma copy_partial_nth:
  "i < length fb \<Longrightarrow>
   copy_partial idx r buf fb ! i = (if idx \<le> i \<and> i < r then buf ! i else fb ! i)"
proof (induction r arbitrary: fb)
  case 0
  then show ?case by (simp add: copy_partial_def)
next
  case (Suc r)
  show ?case
  proof (cases "idx \<le> r")
    case True
    then have "copy_partial idx (Suc r) buf fb = (copy_partial idx r buf fb)[r := buf ! r]"
      by (simp add: copy_partial_def)
    with Suc True show ?thesis
      by (auto simp: nth_list_update less_Suc_eq)
  next
    case False
    then have "copy_partial idx (Suc r) buf fb = fb"
      by (simp add: copy_partial_def)
    with False show ?thesis by auto
  qed
qed

lemma take_as_map_nth: "n \<le> length xs \<Longrightarrow> take n xs = map ((!) xs) [0..<n]"
  by (rule nth_equalityI) simp_all

subsection \<open>readBytes after a partial read\<close>

text \<open>
  A read of \<open>k\<close> bytes that is interrupted, then a read of \<open>m\<close> bytes: the array
  returned has \<open>k + m\<close> entries. The first \<open>k\<close> are the bytes of the first read;
  entry \<open>i\<close> from \<open>k\<close> on is byte \<open>i\<close> of the second read when the second read
  has that many bytes, and otherwise what \<^verbatim>\<open>final_buf\<close> held at \<open>i\<close> before the call.
\<close>

lemma readBytes_partial_then_full:
  assumes d1: "d1 \<noteq> []" "length d1 \<le> 1024" and d2: "d2 \<noteq> []" "length d2 \<le> 1024"
  shows "readBytes p g\<^sub>b g\<^sub>f [Delivers d1 EINTR, Delivers d2 0] count =
     Some (JArray (map (\<lambda>i. if i < length d1 then d1 ! i
                             else if i < length d2 then d2 ! i else g\<^sub>f i)
                       [0..<length d1 + length d2]))"
proof -
  let ?k = "length d1" and ?m = "length d2"
  let ?b1 = "d1 @ drop ?k (stack_array 1024 g\<^sub>b)"
  let ?f1 = "copy_partial 0 ?k ?b1 (stack_array (1024 * 3) g\<^sub>f)"
  let ?b2 = "d2 @ drop ?m ?b1"
  let ?f2 = "copy_partial ?k ?m ?b2 ?f1"
  from d1 d2 have pos: "0 < ?k" "0 < ?m" by simp_all
  have run: "readBytes p g\<^sub>b g\<^sub>f [Delivers d1 EINTR, Delivers d2 0] count
      = Some (JArray (take (?k + ?m) ?f2))"
    using d1 d2 pos by (simp add: readBytes_def EINTR_def)
  have "take (?k + ?m) ?f2 = map (\<lambda>i. if i < ?k then d1 ! i
                             else if i < ?m then d2 ! i else g\<^sub>f i) [0..<?k + ?m]"
  proof (rule nth_equalityI)
    show "length (take (?k + ?m) ?f2) = length (map (\<lambda>i. if i < ?k then d1 ! i
                             else if i < ?m then d2 ! i else g\<^sub>f i) [0..<?k + ?m])"
      using d1 d2 by simp
  next
    fix i assume "i < length (take (?k + ?m) ?f2)"
    with d1 d2 have i: "i < ?k + ?m" "i < 3072" by simp_all
    then show "take (?k + ?m) ?f2 ! i = map (\<lambda>i. if i < ?k then d1 ! i
                             else if i < ?m then d2 ! i else g\<^sub>f i) [0..<?k + ?m] ! i"
      by (simp add: copy_partial_nth stack_array_nth nth_append)
  qed
  with run show ?thesis by simp
qed

text \<open>
  Claim C1. The claim: when a read delivers \<open>k\<close> bytes and is interrupted and the next
  read delivers \<open>m\<close> bytes, the array returned is the \<open>k\<close> bytes followed by the \<open>m\<close>
  bytes. The code at that input: the first read delivers the two bytes 0x41 0x42 with
  \<^verbatim>\<open>errno = EINTR\<close>, the second delivers 0x43 0x44 with \<^verbatim>\<open>errno = 0\<close>. The second
  copy loop runs from \<open>i = index = 2\<close> while \<open>i < ret = 2\<close>, so it copies nothing, and
  the array returned has four entries of which the last two are the bytes that the
  uninitialised \<^verbatim>\<open>final_buf\<close> held at positions 2 and 3: the bytes 0x43 0x44 of the
  second read are not in it.
\<close>

theorem readBytes_partial_then_full_drops_second:
  "readBytes p g\<^sub>b g\<^sub>f [Delivers [0x41, 0x42] EINTR, Delivers [0x43, 0x44] 0] count
     = Some (JArray [0x41, 0x42, g\<^sub>f 2, g\<^sub>f 3])"
  apply (simp add: readBytes_def EINTR_def take_as_map_nth copy_partial_nth
      stack_array_nth upt_conv_Cons)
  apply (simp add: numeral_2_eq_2 numeral_3_eq_3)
  done

subsection \<open>readBytes and its count argument\<close>





subsection \<open>writeBytes when one byte is left\<close>

text \<open>
  When the system accepts the whole array at the first \<^verbatim>\<open>write\<close>, the call returns 0
  after draining, with the array submitted. When one byte is left and the \<^verbatim>\<open>write\<close>
  fails, with any error number, the loop ends and the call returns 0.
\<close>

lemma writeBytes_all_accepted:
  "writeBytes buffer (Accepts (length buffer) # evs) delay
     = Some \<lparr>wret = 0, submitted = buffer, drained = True\<rparr>"
proof (cases buffer)
  case Nil
  then show ?thesis by (simp add: writeBytes_def)
next
  case (Cons b bs)
  then show ?thesis by (cases bs) (simp_all add: writeBytes_def)
qed

lemma writeBytes_loop_one_left:
  "writeBytes_loop data_buf (WFails e # evs) (Suc 0) index sub
     = Some \<lparr>wret = 0, submitted = sub, drained = True\<rparr>"
  by simp

text \<open>
  Claim C2. The claim: a write that fails with an error other than \<^verbatim>\<open>EINTR\<close> makes
  \<^verbatim>\<open>writeBytes\<close> return the negated error number, and a write that fails with
  \<^verbatim>\<open>EINTR\<close> is tried again. The code when one byte is left to write: the loop
  condition compares the truth value of \<^verbatim>\<open>count > 0 && ret\<close> with \<^verbatim>\<open>count\<close>, and
  \<^verbatim>\<open>ret = -1\<close> is true, so with \<^verbatim>\<open>count = 1\<close> the loop ends as if the byte had
  been accepted. For the one-byte array 0x50 and a write failing with error 5, the call
  returns 0 after draining, with no byte accepted; the same when the write fails with
  \<^verbatim>\<open>EINTR\<close> (no second attempt is made); and for the four bytes \<^verbatim>\<open>PING\<close>, of which
  three are accepted before the failure, the call returns 0 with \<^verbatim>\<open>PIN\<close> accepted.
\<close>

theorem writeBytes_last_byte_failure_returns_0:
  "writeBytes [0x50] [WFails 5] delay = Some \<lparr>wret = 0, submitted = [], drained = True\<rparr>
   \<and> writeBytes [0x50] [WFails EINTR, Accepts 1] delay
        = Some \<lparr>wret = 0, submitted = [], drained = True\<rparr>
   \<and> writeBytes [0x50, 0x49, 0x4E, 0x47] [Accepts 3, WFails 5] delay
        = Some \<lparr>wret = 0, submitted = [0x50, 0x49, 0x4E], drained = True\<rparr>"
  by (simp add: writeBytes_def eval_nat_numeral)

section \<open>Properties of the thread registry\<close>

subsection \<open>The scan\<close>

lemma scan_le: "scan f ds \<le> length ds"
  by (induction ds) auto

lemma scan_found_iff: "scan f ds < length ds \<longleftrightarrow> f \<in> set ds"
  by (induction ds) auto

lemma scan_nth: "f \<in> set ds \<Longrightarrow> ds ! scan f ds = f"
  by (induction ds) auto

lemma scan_absent: "f \<notin> set ds \<Longrightarrow> scan f ds = length ds"
  by (induction ds) auto

lemma find_slot_found:
  assumes "length tbl = MAX_NUM_THREADS" "f \<in> fd ` set tbl"
  shows "find_slot f tbl < MAX_NUM_THREADS" "fd (tbl ! find_slot f tbl) = f"
proof -
  from assms have mem: "f \<in> set (map fd tbl)" by simp
  from assms(1) have eq: "find_slot f tbl = scan f (map fd tbl)"
    by (simp add: find_slot_def)
  from mem have "scan f (map fd tbl) < length (map fd tbl)"
    by (simp only: scan_found_iff)
  with assms(1) eq show lt: "find_slot f tbl < MAX_NUM_THREADS" by simp
  from scan_nth [OF mem] eq lt assms(1) show "fd (tbl ! find_slot f tbl) = f"
    by simp
qed

lemma find_slot_absent:
  assumes "length tbl = MAX_NUM_THREADS" "f \<notin> fd ` set tbl"
  shows "find_slot f tbl = MAX_NUM_THREADS"
proof -
  from assms have "f \<notin> set (map fd tbl)" by simp
  then have "scan f (map fd tbl) = length (map fd tbl)" by (rule scan_absent)
  with assms(1) show ?thesis by (simp add: find_slot_def)
qed

lemma find_port_slot_found:
  assumes "length tbl = MAX_NUM_THREADS" "f \<in> port_fd ` set tbl"
  shows "find_port_slot f tbl < MAX_NUM_THREADS" "port_fd (tbl ! find_port_slot f tbl) = f"
proof -
  from assms have mem: "f \<in> set (map port_fd tbl)" by simp
  from assms(1) have eq: "find_port_slot f tbl = scan f (map port_fd tbl)"
    by (simp add: find_port_slot_def)
  from mem have "scan f (map port_fd tbl) < length (map port_fd tbl)"
    by (simp only: scan_found_iff)
  with assms(1) eq show lt: "find_port_slot f tbl < MAX_NUM_THREADS" by simp
  from scan_nth [OF mem] eq lt assms(1) show "port_fd (tbl ! find_port_slot f tbl) = f"
    by simp
qed

lemma find_port_slot_absent:
  assumes "length tbl = MAX_NUM_THREADS" "f \<notin> port_fd ` set tbl"
  shows "find_port_slot f tbl = MAX_NUM_THREADS"
proof -
  from assms have "f \<notin> set (map port_fd tbl)" by simp
  then have "scan f (map port_fd tbl) = length (map port_fd tbl)" by (rule scan_absent)
  with assms(1) show ?thesis by (simp add: find_port_slot_def)
qed

subsection \<open>Teardown without a slot\<close>

text \<open>
  Claim C10. The three teardown functions rely on a slot for the descriptor being in
  the table. In a table of \<^verbatim>\<open>MAX_NUM_THREADS\<close> slots: when some slot has the
  descriptor, the scan stops at an index below \<^verbatim>\<open>MAX_NUM_THREADS\<close> whose slot has
  it and the function touches no slot outside the table; when no slot has it, the scan
  ends at \<^verbatim>\<open>MAX_NUM_THREADS\<close> and the store of the exit flag that follows goes to
  that slot, one past the end of the table.
\<close>

theorem teardown_needs_live_entry:
  assumes "length (fd_looper_info g) = MAX_NUM_THREADS"
    and "length (port_monitor_info g) = MAX_NUM_THREADS"
  shows "(if f \<in> fd ` set (fd_looper_info g)
          then find_slot f (fd_looper_info g) < MAX_NUM_THREADS
             \<and> fd (fd_looper_info g ! find_slot f (fd_looper_info g)) = f
             \<and> \<not> isl (destroyDataLooperThread g env f)
             \<and> \<not> isl (destroyEventLooperThread g env f)
          else find_slot f (fd_looper_info g) = MAX_NUM_THREADS
             \<and> destroyDataLooperThread g env f = Inl (OutOfBounds MAX_NUM_THREADS)
             \<and> destroyEventLooperThread g env f = Inl (OutOfBounds MAX_NUM_THREADS))
       \<and> (if f \<in> port_fd ` set (port_monitor_info g)
          then find_port_slot f (port_monitor_info g) < MAX_NUM_THREADS
             \<and> port_fd (port_monitor_info g ! find_port_slot f (port_monitor_info g)) = f
             \<and> \<not> isl (unregisterPortMonitorListener p g env f)
          else find_port_slot f (port_monitor_info g) = MAX_NUM_THREADS
             \<and> unregisterPortMonitorListener p g env f = Inl (OutOfBounds MAX_NUM_THREADS))"
proof (rule conjI)
  show "if f \<in> fd ` set (fd_looper_info g)
          then find_slot f (fd_looper_info g) < MAX_NUM_THREADS
             \<and> fd (fd_looper_info g ! find_slot f (fd_looper_info g)) = f
             \<and> \<not> isl (destroyDataLooperThread g env f)
             \<and> \<not> isl (destroyEventLooperThread g env f)
          else find_slot f (fd_looper_info g) = MAX_NUM_THREADS
             \<and> destroyDataLooperThread g env f = Inl (OutOfBounds MAX_NUM_THREADS)
             \<and> destroyEventLooperThread g env f = Inl (OutOfBounds MAX_NUM_THREADS)"
  proof (cases "f \<in> fd ` set (fd_looper_info g)")
    case True
    note fs = find_slot_found [OF assms(1) True]
    from fs(1) have "\<not> isl (destroyDataLooperThread g env f)"
      by (simp add: destroyDataLooperThread_def Let_def)
    moreover from fs(1) have "\<not> isl (destroyEventLooperThread g env f)"
      by (simp add: destroyEventLooperThread_def Let_def)
    ultimately show ?thesis using True fs by simp
  next
    case False
    note fs = find_slot_absent [OF assms(1) False]
    then show ?thesis using False
      by (simp add: destroyDataLooperThread_def destroyEventLooperThread_def)
  qed
  show "if f \<in> port_fd ` set (port_monitor_info g)
          then find_port_slot f (port_monitor_info g) < MAX_NUM_THREADS
             \<and> port_fd (port_monitor_info g ! find_port_slot f (port_monitor_info g)) = f
             \<and> \<not> isl (unregisterPortMonitorListener p g env f)
          else find_port_slot f (port_monitor_info g) = MAX_NUM_THREADS
             \<and> unregisterPortMonitorListener p g env f = Inl (OutOfBounds MAX_NUM_THREADS)"
  proof (cases "f \<in> port_fd ` set (port_monitor_info g)")
    case True
    note fs = find_port_slot_found [OF assms(2) True]
    from fs(1) have "\<not> isl (unregisterPortMonitorListener p g env f)"
      by (simp add: unregisterPortMonitorListener_def Let_def)
    then show ?thesis using True fs by simp
  next
    case False
    note fs = find_port_slot_absent [OF assms(2) False]
    then show ?thesis using False
      by (simp add: unregisterPortMonitorListener_def)
  qed
qed


lemma example_globals_lengths:
  "length (fd_looper_info example_globals) = MAX_NUM_THREADS"
  "length (port_monitor_info example_globals) = MAX_NUM_THREADS"
  by (simp_all add: example_globals_def)

lemma set_replicate_update0: "1 < n \<Longrightarrow> set ((replicate n z)[0 := e]) = {e, z}"
  by (cases n) auto

lemma example_globals_fds:
  "fd ` set (fd_looper_info example_globals) = {7, 0}"
  "port_fd ` set (port_monitor_info example_globals) = {7, 0}"
  by (simp_all add: example_globals_def MAX_NUM_THREADS_def set_replicate_update0
       new_params_def zero_params_def zero_port_info_def)

theorem teardown_needs_live_entry_witness:
  "length (fd_looper_info example_globals) = MAX_NUM_THREADS
   \<and> length (port_monitor_info example_globals) = MAX_NUM_THREADS
   \<and> (7 \<in> fd ` set (fd_looper_info example_globals)
      \<and> find_slot 7 (fd_looper_info example_globals) < MAX_NUM_THREADS
      \<and> \<not> isl (destroyDataLooperThread example_globals \<lparr>kill_ret = 0, join_ret = 0\<rparr> 7)
      \<and> \<not> isl (destroyEventLooperThread example_globals \<lparr>kill_ret = 0, join_ret = 0\<rparr> 7)
      \<and> \<not> isl (unregisterPortMonitorListener Apple example_globals \<lparr>kill_ret = 0, join_ret = 0\<rparr> 7))
   \<and> (9 \<notin> fd ` set (fd_looper_info example_globals)
      \<and> find_slot 9 (fd_looper_info example_globals) = MAX_NUM_THREADS
      \<and> destroyDataLooperThread example_globals \<lparr>kill_ret = 0, join_ret = 0\<rparr> 9
           = Inl (OutOfBounds MAX_NUM_THREADS)
      \<and> destroyEventLooperThread example_globals \<lparr>kill_ret = 0, join_ret = 0\<rparr> 9
           = Inl (OutOfBounds MAX_NUM_THREADS)
      \<and> unregisterPortMonitorListener Apple example_globals \<lparr>kill_ret = 0, join_ret = 0\<rparr> 9
           = Inl (OutOfBounds MAX_NUM_THREADS))"
  using teardown_needs_live_entry [OF example_globals_lengths, of 7 "\<lparr>kill_ret = 0, join_ret = 0\<rparr>" Apple]
    teardown_needs_live_entry [OF example_globals_lengths, of 9 "\<lparr>kill_ret = 0, join_ret = 0\<rparr>" Apple]
  by (simp add: example_globals_lengths example_globals_fds)

subsection \<open>Stopping one listener kind\<close>

text \<open>
  Claim C5. For a descriptor that has a slot in the table: \<^verbatim>\<open>destroyDataLooperThread\<close>
  sets the slot's descriptor to -1 only when it has joined the data thread and no event
  thread is recorded in the slot, and \<^verbatim>\<open>destroyEventLooperThread\<close> only when it has
  joined the event thread and no data thread is recorded; otherwise the descriptor stays.
  Either function leaves the thread identity of the other kind as it was, clears its
  own kind's identity when the join succeeded, and changes no other slot.
\<close>

theorem slot_freed_only_without_other_kind:
  assumes len: "length (fd_looper_info g) = MAX_NUM_THREADS"
    and live: "f \<in> fd ` set (fd_looper_info g)"
  shows "(case destroyDataLooperThread g env f of
            Inl flt \<Rightarrow> False
          | Inr (r, g') \<Rightarrow>
              (let x = find_slot f (fd_looper_info g);
                   old = fd_looper_info g ! x; new = fd_looper_info g' ! x
               in r = - join_ret env
                \<and> fd new = (if r = 0 \<and> event_thread_id old = 0 then - 1 else f)
                \<and> event_thread_id new = event_thread_id old
                \<and> data_thread_id new = (if r = 0 then 0 else data_thread_id old)
                \<and> fd_looper_info g' = (fd_looper_info g)[x := new]))
       \<and> (case destroyEventLooperThread g env f of
            Inl flt \<Rightarrow> False
          | Inr (r, g') \<Rightarrow>
              (let x = find_slot f (fd_looper_info g);
                   old = fd_looper_info g ! x; new = fd_looper_info g' ! x
               in r = (if kill_ret env \<noteq> 0 then - kill_ret env else - join_ret env)
                \<and> fd new = (if r = 0 \<and> data_thread_id old = 0 then - 1 else f)
                \<and> data_thread_id new = data_thread_id old
                \<and> event_thread_id new = (if r = 0 then 0 else event_thread_id old)
                \<and> fd_looper_info g' = (fd_looper_info g)[x := new]))"
proof -
  note fs = find_slot_found [OF len live]
  from fs(1) len have x: "find_slot f (fd_looper_info g) < length (fd_looper_info g)"
    by simp
  have "case destroyDataLooperThread g env f of
            Inl flt \<Rightarrow> False
          | Inr (r, g') \<Rightarrow>
              (let x = find_slot f (fd_looper_info g);
                   old = fd_looper_info g ! x; new = fd_looper_info g' ! x
               in r = - join_ret env
                \<and> fd new = (if r = 0 \<and> event_thread_id old = 0 then - 1 else f)
                \<and> event_thread_id new = event_thread_id old
                \<and> data_thread_id new = (if r = 0 then 0 else data_thread_id old)
                \<and> fd_looper_info g' = (fd_looper_info g)[x := new])"
    using fs x by (simp add: destroyDataLooperThread_def Let_def)
  moreover have "case destroyEventLooperThread g env f of
            Inl flt \<Rightarrow> False
          | Inr (r, g') \<Rightarrow>
              (let x = find_slot f (fd_looper_info g);
                   old = fd_looper_info g ! x; new = fd_looper_info g' ! x
               in r = (if kill_ret env \<noteq> 0 then - kill_ret env else - join_ret env)
                \<and> fd new = (if r = 0 \<and> data_thread_id old = 0 then - 1 else f)
                \<and> data_thread_id new = data_thread_id old
                \<and> event_thread_id new = (if r = 0 then 0 else event_thread_id old)
                \<and> fd_looper_info g' = (fd_looper_info g)[x := new])"
    using fs x by (simp add: destroyEventLooperThread_def Let_def)
  ultimately show ?thesis by (rule conjI)
qed


lemma replicate_update0: "0 < n \<Longrightarrow> (replicate n z)[0 := e] = e # replicate (n - 1) z"
  by (cases n) auto

lemma example_data_only_facts:
  "length (fd_looper_info example_data_only) = MAX_NUM_THREADS"
  "7 \<in> fd ` set (fd_looper_info example_data_only)"
  by (simp_all add: example_data_only_def MAX_NUM_THREADS_def set_replicate_update0
       new_params_def)

lemma example_find_slot:
  "find_slot 7 (fd_looper_info example_globals) = 0"
  "find_slot 7 (fd_looper_info example_data_only) = 0"
  by (simp_all add: find_slot_def example_globals_def example_data_only_def
       MAX_NUM_THREADS_def replicate_update0 new_params_def)

theorem slot_freed_only_without_other_kind_witness:
  "length (fd_looper_info example_globals) = MAX_NUM_THREADS
   \<and> 7 \<in> fd ` set (fd_looper_info example_globals)
   \<and> (case destroyDataLooperThread example_globals \<lparr>kill_ret = 0, join_ret = 0\<rparr> 7 of
        Inl flt \<Rightarrow> False
      | Inr (r, g') \<Rightarrow> r = 0 \<and> fd (fd_looper_info g' ! 0) = 7
          \<and> event_thread_id (fd_looper_info g' ! 0) = 12
          \<and> data_thread_id (fd_looper_info g' ! 0) = 0)
   \<and> (case destroyEventLooperThread example_globals \<lparr>kill_ret = 0, join_ret = 0\<rparr> 7 of
        Inl flt \<Rightarrow> False
      | Inr (r, g') \<Rightarrow> r = 0 \<and> fd (fd_looper_info g' ! 0) = 7
          \<and> data_thread_id (fd_looper_info g' ! 0) = 11
          \<and> event_thread_id (fd_looper_info g' ! 0) = 0)
   \<and> length (fd_looper_info example_data_only) = MAX_NUM_THREADS
   \<and> 7 \<in> fd ` set (fd_looper_info example_data_only)
   \<and> (case destroyDataLooperThread example_data_only \<lparr>kill_ret = 0, join_ret = 0\<rparr> 7 of
        Inl flt \<Rightarrow> False
      | Inr (r, g') \<Rightarrow> r = 0 \<and> fd (fd_looper_info g' ! 0) = - 1
          \<and> event_thread_id (fd_looper_info g' ! 0) = 0
          \<and> data_thread_id (fd_looper_info g' ! 0) = 0)"
proof -
  have a: "7 \<in> fd ` set (fd_looper_info example_globals)"
    by (simp add: example_globals_fds)
  have old: "event_thread_id (fd_looper_info example_globals ! 0) = 12"
    "data_thread_id (fd_looper_info example_globals ! 0) = 11"
    "event_thread_id (fd_looper_info example_data_only ! 0) = 0"
    by (simp_all add: example_globals_def example_data_only_def MAX_NUM_THREADS_def
        new_params_def)
  show ?thesis
    using slot_freed_only_without_other_kind [OF example_globals_lengths(1) a,
        of "\<lparr>kill_ret = 0, join_ret = 0\<rparr>"]
      slot_freed_only_without_other_kind [OF example_data_only_facts,
        of "\<lparr>kill_ret = 0, join_ret = 0\<rparr>"]
    by (simp add: example_globals_lengths a example_data_only_facts example_find_slot old
        Let_def split: sum.splits prod.splits)
qed

subsection \<open>Registration in a full table\<close>

lemma filled_initial: "filled 0 initial_globals"
  by (auto simp: filled_def initial_globals_def zero_params_def)

lemma filled_absent:
  assumes "filled n g" "3 + int n \<le> f"
  shows "find_slot f (fd_looper_info g) = MAX_NUM_THREADS"
proof -
  from assms have "f \<notin> fd ` set (fd_looper_info g)"
    by (auto simp: filled_def)
  with assms(1) show ?thesis
    by (simp add: filled_def find_slot_absent)
qed

lemma filled_step:
  assumes "filled n g" "n < MAX_NUM_THREADS"
  shows "\<exists>g'. setUpDataLooperThread g (ok_spawn t) [Some 1] (3 + int n) = Inr (Some 0, g')
            \<and> filled (Suc n) g'"
proof -
  have fs: "find_slot (3 + int n) (fd_looper_info g) = MAX_NUM_THREADS"
    using assms(1) by (rule filled_absent) simp
  let ?e = "(new_params (3 + int n) 1)\<lparr>data_thread_id := t\<rparr>"
  let ?e' = "?e\<lparr>data_init_done := 1\<rparr>"
  let ?tbl = "(fd_looper_info g)[n := ?e']"
  let ?g' = "g\<lparr>fd_looper_info := ?tbl, dtp_index := n + 1\<rparr>"
  from assms have len: "n < length (fd_looper_info g)" and idx: "dtp_index g = n"
    by (simp_all add: filled_def)
  have locked: "setUpDataLooperThread_locked g (ok_spawn t) (3 + int n)
      = Inr (AwaitsInit n, g\<lparr>fd_looper_info := (fd_looper_info g)[n := ?e],
                              dtp_index := n + 1\<rparr>)"
    using fs assms(2) len idx
    by (simp add: setUpDataLooperThread_locked_def ok_spawn_def Let_def)
  have run: "setUpDataLooperThread g (ok_spawn t) [Some 1] (3 + int n) = Inr (Some 0, ?g')"
    using len
    by (simp add: setUpDataLooperThread_def locked await_init_done_def)
  have "fd ` set ?tbl \<subseteq> fd ` insert ?e' (set (fd_looper_info g))"
    by (rule image_mono) (rule set_update_subset_insert)
  also have "\<dots> = insert (3 + int n) (fd ` set (fd_looper_info g))"
    by (simp add: new_params_def)
  also from assms(1) have "\<dots> \<subseteq> insert (3 + int n) (insert 0 {3 ..< 3 + int n})"
    unfolding filled_def by (intro insert_mono) simp
  also have "\<dots> \<subseteq> insert 0 {3 ..< 3 + int (Suc n)}"
    by auto
  finally have "fd ` set ?tbl \<subseteq> insert 0 {3 ..< 3 + int (Suc n)}" .
  with assms(1) have "filled (Suc n) ?g'"
    by (simp add: filled_def)
  with run show ?thesis
    by (intro exI conjI)
qed

lemma register_data_filled:
  "filled n g \<Longrightarrow> n + k \<le> MAX_NUM_THREADS \<Longrightarrow>
   \<exists>g'. register_data g (map (\<lambda>i. 3 + int i) [n..<n + k]) = Inr g' \<and> filled (n + k) g'"
proof (induction k arbitrary: n g)
  case 0
  then show ?case by simp
next
  case (Suc k)
  from Suc.prems have "n < MAX_NUM_THREADS" by simp
  from filled_step [OF Suc.prems(1) this, of "nat (3 + int n)"]
  obtain g1 where g1: "setUpDataLooperThread g (ok_spawn (nat (3 + int n))) [Some 1] (3 + int n)
      = Inr (Some 0, g1)" "filled (Suc n) g1"
    by blast
  from Suc.prems have "Suc n + k \<le> MAX_NUM_THREADS" by simp
  from Suc.IH [OF g1(2) this]
  obtain g' where g': "register_data g1 (map (\<lambda>i. 3 + int i) [Suc n..<Suc n + k]) = Inr g'"
      "filled (Suc n + k) g'"
    by blast
  have "[n..<n + Suc k] = n # [Suc n..<Suc n + k]"
    by (simp add: upt_conv_Cons)
  with g1(1) g' show ?case by simp
qed

text \<open>
  Claim C3. The claim: with all \<^verbatim>\<open>MAX_NUM_THREADS\<close> slots taken, one more
  registration fails with a capacity error and writes nothing outside the table. The
  code has no such check. From the initial state, register data listeners for 1024
  descriptors 3, 4, ..., 1026: every slot is taken and \<^verbatim>\<open>dtp_index\<close> is 1024. A
  registration for one more descriptor, by either set-up function, finds no slot for it
  and executes \<^verbatim>\<open>fd_looper_info[dtp_index] = params\<close> with \<^verbatim>\<open>dtp_index\<close> = 1024:
  a store to the slot one past the end of the table.
\<close>

theorem registration_beyond_capacity_writes_past_table:
  "\<exists>g. register_data initial_globals (map (\<lambda>i. 3 + int i) [0..<MAX_NUM_THREADS]) = Inr g
      \<and> length (fd_looper_info g) = MAX_NUM_THREADS
      \<and> dtp_index g = MAX_NUM_THREADS
      \<and> setUpDataLooperThread g (ok_spawn t) stores 2000 = Inl (OutOfBounds MAX_NUM_THREADS)
      \<and> setUpEventLooperThread g (ok_spawn t) stores 2000 = Inl (OutOfBounds MAX_NUM_THREADS)"
proof -
  from register_data_filled [OF filled_initial, of MAX_NUM_THREADS]
  obtain g where g: "register_data initial_globals
        (map (\<lambda>i. 3 + int i) [0..<MAX_NUM_THREADS]) = Inr g" "filled MAX_NUM_THREADS g"
    by auto
  have "find_slot 2000 (fd_looper_info g) = MAX_NUM_THREADS"
    using g(2) by (rule filled_absent) (simp add: MAX_NUM_THREADS_def)
  moreover from g(2) have "dtp_index g = MAX_NUM_THREADS"
    "length (fd_looper_info g) = MAX_NUM_THREADS"
    by (simp_all add: filled_def)
  ultimately show ?thesis using g(1)
    by (simp add: setUpDataLooperThread_def setUpEventLooperThread_def
        setUpDataLooperThread_locked_def setUpEventLooperThread_locked_def ok_spawn_def)
qed

section \<open>Properties of the port monitor table\<close>

text \<open>
  Claim C8, as stated: a second \<^verbatim>\<open>registerPortMonitorListener\<close> for a device path
  that has a monitor fails. The code at that input: after a monitor for
  \<^verbatim>\<open>/dev/ttyUSB0\<close> is registered from the initial state, a second call for the same
  descriptor and path returns 0 and the table holds two entries for the path, each with
  its own thread.
\<close>

theorem second_monitor_for_same_path_registered:
  "registerPortMonitorListener initial_globals (ok_spawn 21) 0 5 ''/dev/ttyUSB0''
     = Inr (0, monitor_once)
   \<and> registerPortMonitorListener monitor_once (ok_spawn 22) 0 5 ''/dev/ttyUSB0''
     = Inr (0, monitor_twice)
   \<and> portName (port_monitor_info monitor_twice ! 0) = ''/dev/ttyUSB0''
   \<and> portName (port_monitor_info monitor_twice ! 1) = ''/dev/ttyUSB0''
   \<and> thread_id (port_monitor_info monitor_twice ! 0) = 21
   \<and> thread_id (port_monitor_info monitor_twice ! 1) = 22"
  by (simp add: registerPortMonitorListener_def ok_spawn_def monitor_once_def
      monitor_twice_def initial_globals_def usb0_entry_def MAX_NUM_THREADS_def Let_def)

text \<open>
  Claim C8, amended. \<^verbatim>\<open>registerPortMonitorListener\<close> does not look at the entries
  already in the table: whenever the listener reference and the thread are created and
  \<^verbatim>\<open>port_monitor_index\<close> is below \<^verbatim>\<open>MAX_NUM_THREADS\<close>, the call returns 0, stores
  a new entry for the path in slot \<^verbatim>\<open>port_monitor_index\<close>, leaves the other slots as
  they are and increments \<^verbatim>\<open>port_monitor_index\<close>, whether or not a monitor for the
  same path is registered.
\<close>

theorem registerPortMonitorListener_no_duplicate_check:
  assumes "new_global_ref env \<noteq> 0" and "0 \<le> create_ret env"
    and "port_monitor_index g < MAX_NUM_THREADS"
    and "length (port_monitor_info g) = MAX_NUM_THREADS"
  shows "registerPortMonitorListener g env tid\<^sub>0 f name =
     Inr (0, g\<lparr>port_monitor_info := (port_monitor_info g)
                  [port_monitor_index g :=
                     \<lparr>portName = name, port_fd = f, port_listener = new_global_ref env,
                      thread_exit = 0, thread_id = create_tid env\<rparr>],
               port_monitor_index := port_monitor_index g + 1\<rparr>)"
  using assms by (simp add: registerPortMonitorListener_def Let_def)

theorem registerPortMonitorListener_no_duplicate_check_witness:
  "new_global_ref (ok_spawn 22) \<noteq> 0 \<and> 0 \<le> create_ret (ok_spawn 22)
   \<and> port_monitor_index monitor_once < MAX_NUM_THREADS
   \<and> length (port_monitor_info monitor_once) = MAX_NUM_THREADS
   \<and> portName (port_monitor_info monitor_once ! 0) = ''/dev/ttyUSB0''
   \<and> registerPortMonitorListener monitor_once (ok_spawn 22) 0 5 ''/dev/ttyUSB0''
       = Inr (0, monitor_twice)"
proof -
  have h: "new_global_ref (ok_spawn 22) \<noteq> 0" "0 \<le> create_ret (ok_spawn 22)"
    "port_monitor_index monitor_once < MAX_NUM_THREADS"
    "length (port_monitor_info monitor_once) = MAX_NUM_THREADS"
    by (simp_all add: ok_spawn_def monitor_once_def initial_globals_def MAX_NUM_THREADS_def)
  from registerPortMonitorListener_no_duplicate_check [OF h, of 0 5 "''/dev/ttyUSB0''"]
  show ?thesis
    using h
    by (simp add: ok_spawn_def monitor_once_def monitor_twice_def initial_globals_def
        usb0_entry_def MAX_NUM_THREADS_def)
qed

section \<open>Properties of the configuration codec\<close>

subsection \<open>A custom baud rate on Solaris\<close>

text \<open>
  Claim C6. The claim: on a platform without custom baud rates, a call of
  \<^verbatim>\<open>configureComPortData\<close> that asks for one (\<^verbatim>\<open>baudRateTranslated = 251\<close>) reports
  a failure. The code on Solaris: the section for the custom rate prints "This baud
  rate is not supported by OS platform." and falls through; whenever the control block
  can be read and written, the call sets data bits, stop bits and parity, flushes and
  returns 0, and \<^verbatim>\<open>custBaudTranslated\<close> is used nowhere, for instance for 250000 baud,
  8 data bits, 1 stop bit and no parity.
\<close>

theorem custom_baud_on_solaris_returns_success:
  "cret (configureComPortData SunOS h (env\<lparr>get_attr := Inr cfg, set_attr := Done\<rparr>)
           dataBits stopBits parity 251 custBaudTranslated) = 0
   \<and> configureComPortData SunOS h (env\<lparr>get_attr := Inr cfg, set_attr := Done\<rparr>)
           dataBits stopBits parity 251 custBaudTranslated
     = \<lparr>cret = 0,
        device_cfg = Some (set_parity h parity
                            (set_stop_bits h stopBits (set_data_bits h dataBits cfg))),
        device_speed = None, flushed = True\<rparr>
   \<and> cret (configureComPortData SunOS (sunos_termios_h B)
             \<lparr>get_attr = Inr zero_termios, set_custom_baud = Done,
              cfsetspeed = (\<lambda>c b. Inr c), set_attr = Done\<rparr> 8 1 1 251 250000) = 0"
  by (simp add: configureComPortData_def apply_data_settings_def)

subsection \<open>Software flow control after hardware flow control on Solaris\<close>

lemma flow3_cflag:
  "c_cflag (set_flow_control p h 3 xon xoff cfg) = c_cflag cfg AND NOT (CRTSCTS h)"
  by (simp add: set_flow_control_def)

lemma and_not_absorb:
  "(x AND NOT c) AND (s AND NOT c) = x AND (s AND NOT c)" for x :: tcflag_t
  by (auto simp add: bit_eq_iff bit_and_iff bit_not_iff)

text \<open>
  Claim C7. The claim: after a successful \<^verbatim>\<open>configureComPortControl\<close> with
  \<^verbatim>\<open>flowctrl = 3\<close> every hardware flow control bit of the platform is clear. The
  code: the branch for 3 clears \<^verbatim>\<open>CRTSCTS\<close> and no other bit of \<^verbatim>\<open>c_cflag\<close>, so the
  bits of \<^verbatim>\<open>CRTSXOFF\<close> that are not bits of \<^verbatim>\<open>CRTSCTS\<close> stay as they were. On
  Solaris, where the two are different bits and the branch for 2 sets both: from a
  control block with every flag clear, a call with \<^verbatim>\<open>flowctrl = 2\<close> gives
  \<^verbatim>\<open>c_cflag = CRTSCTS | CRTSXOFF\<close>, and a call with \<^verbatim>\<open>flowctrl = 3\<close> on that
  control block returns 0 with \<^verbatim>\<open>IXON | IXOFF\<close> set and \<^verbatim>\<open>CRTSXOFF\<close> still set:
  hardware flow control on input and software flow control are both enabled.
\<close>

theorem software_flow_control_on_solaris_keeps_CRTSXOFF:
  "c_cflag (set_flow_control SunOS h 3 xon xoff cfg) AND (CRTSXOFF h AND NOT (CRTSCTS h))
     = c_cflag cfg AND (CRTSXOFF h AND NOT (CRTSCTS h))
   \<and> configureComPortControl SunOS (sunos_termios_h B)
     \<lparr>get_attr = Inr zero_termios, set_custom_baud = sc, cfsetspeed = cs, set_attr = Done\<rparr>
     2 0x11 0x13 False False
    = \<lparr>cret = 0, device_cfg = Some (zero_termios\<lparr>c_cflag := 0xC0000000\<rparr>),
       device_speed = None, flushed = True\<rparr>
   \<and> configureComPortControl SunOS (sunos_termios_h B)
     \<lparr>get_attr = Inr (zero_termios\<lparr>c_cflag := 0xC0000000\<rparr>), set_custom_baud = sc,
      cfsetspeed = cs, set_attr = Done\<rparr>
     3 0x11 0x13 False False
    = \<lparr>cret = 0,
       device_cfg = Some (zero_termios\<lparr>c_cflag := 0x40000000, c_iflag := 0x1400,
                            c_cc := (replicate 19 0)[8 := 0x11, 9 := 0x13]\<rparr>),
       device_speed = None, flushed = True\<rparr>
   \<and> (0x40000000 :: tcflag_t) AND CRTSXOFF (sunos_termios_h B) = CRTSXOFF (sunos_termios_h B)
   \<and> (0x1400 :: tcflag_t) = IXON (sunos_termios_h B) OR IXOFF (sunos_termios_h B)"
proof (intro conjI)
  show "c_cflag (set_flow_control SunOS h 3 xon xoff cfg) AND (CRTSXOFF h AND NOT (CRTSCTS h))
     = c_cflag cfg AND (CRTSXOFF h AND NOT (CRTSCTS h))"
    by (simp only: flow3_cflag and_not_absorb)
qed (simp_all add: configureComPortControl_def set_flow_control_def sunos_termios_h_def
    zero_termios_def)

section \<open>Properties of the wait for the new thread\<close>

subsection \<open>The poll\<close>

text \<open>
  The loop ends only on a load that is not 0. Started on a flag that is 0, it ends only
  on a value that has been stored since, and never when nothing is stored. When one
  value \<open>t\<close> other than 0 is stored and stays, the call returns 0 if \<open>t\<close> is 1 and
  \<open>t\<close> otherwise. Started on a flag that is not 0, it returns on that value with no
  store at all.
\<close>

lemma poll_init_done_nonzero:
  "poll_init_done ss cur = Some (v, ss') \<Longrightarrow> v \<noteq> 0"
  by (induction ss cur rule: poll_init_done.induct) (auto split: if_splits)

lemma poll_init_done_from_0_stored:
  "poll_init_done ss 0 = Some (v, ss') \<Longrightarrow> Some v \<in> set ss"
proof (induction ss)
  case Nil
  then show ?case by simp
next
  case (Cons s ss)
  then show ?case
  proof (cases s)
    case None
    with Cons show ?thesis by simp
  next
    case (Some w)
    with Cons show ?thesis by (cases "w = 0") auto
  qed
qed

lemma poll_init_done_no_store: "poll_init_done (replicate n None) 0 = None"
  by (induction n) simp_all

lemma poll_init_done_stable:
  "t \<noteq> 0 \<Longrightarrow> poll_init_done (replicate n None @ Some t # replicate m None) 0
     = Some (t, replicate m None)"
  by (induction n) simp_all

lemma load_flag_no_store: "load_flag (replicate m None) cur = (cur, replicate (m - 1) None)"
  by (cases m) simp_all

lemma await_init_done_stable:
  "t \<noteq> 0 \<Longrightarrow> await_init_done (replicate n None @ Some t # replicate m None) 0
     = (Some (if t = 1 then 0 else t), t)"
  by (simp add: await_init_done_def poll_init_done_stable load_flag_no_store)

lemma await_init_done_left_in_slot:
  "cur \<noteq> 0 \<Longrightarrow>
   await_init_done (None # None # None # rest) cur = (Some (if cur = 1 then 0 else cur), cur)"
  by (simp add: await_init_done_def)

lemma await_init_done_returns:
  "await_init_done ss 0 = (Some r, v) \<Longrightarrow> \<exists>w. w \<noteq> 0 \<and> Some w \<in> set ss"
  by (auto simp: await_init_done_def split: option.splits prod.splits
      dest: poll_init_done_nonzero poll_init_done_from_0_stored)

subsection \<open>New slots and slots found in the table\<close>

text \<open>
  A call that makes a new slot returns one of its two error values or returns after a
  value other than 0 has been stored in the flag. A call that finds the slot of the
  descriptor with a flag that is not 0 returns on that value before any store.
\<close>

lemma MAX_NUM_THREADS_pos: "0 < MAX_NUM_THREADS"
  by (simp add: MAX_NUM_THREADS_def)

lemma find_slot_fresh_table:
  "fd z \<noteq> f \<Longrightarrow> find_slot f (replicate MAX_NUM_THREADS z) = MAX_NUM_THREADS"
  by (rule find_slot_absent) auto

lemma find_slot_first_slot:
  "fd e = f \<Longrightarrow> find_slot f ((replicate MAX_NUM_THREADS z)[0 := e]) = 0"
  by (simp add: find_slot_def MAX_NUM_THREADS_def replicate_update0)

lemma setUpDataLooperThread_new_slot_waits:
  assumes "length (fd_looper_info g) = MAX_NUM_THREADS"
    and "f \<notin> fd ` set (fd_looper_info g)"
    and "dtp_index g < MAX_NUM_THREADS"
    and "setUpDataLooperThread g env stores f = Inr (Some r, g')"
  shows "r = - 240 \<or> r = - create_errno env \<or> (\<exists>w. w \<noteq> 0 \<and> Some w \<in> set stores)"
proof -
  note fs = find_slot_absent [OF assms(1,2)]
  show ?thesis
  proof (cases "new_global_ref env = 0 \<or> create_ret env < 0")
    case True
    with assms(3,4) fs show ?thesis
      by (auto simp: setUpDataLooperThread_def setUpDataLooperThread_locked_def Let_def
          split: if_splits)
  next
    case False
    with assms fs
    have "\<exists>v. await_init_done stores 0 = (Some r, v)"
      by (auto simp: setUpDataLooperThread_def setUpDataLooperThread_locked_def Let_def
          new_params_def split: prod.splits)
    then show ?thesis by (auto dest: await_init_done_returns)
  qed
qed

lemma setUpDataLooperThread_found_slot_returns:
  assumes "length (fd_looper_info g) = MAX_NUM_THREADS"
    and "f \<in> fd ` set (fd_looper_info g)"
    and "0 \<le> create_ret env"
    and "data_init_done (fd_looper_info g ! find_slot f (fd_looper_info g)) \<noteq> 0"
  shows "\<exists>g'. setUpDataLooperThread g env (None # None # None # rest) f =
     Inr (Some (if data_init_done (fd_looper_info g ! find_slot f (fd_looper_info g)) = 1
                then 0
                else data_init_done (fd_looper_info g ! find_slot f (fd_looper_info g))), g')"
proof -
  note fs = find_slot_found [OF assms(1,2)]
  from fs(1) assms(1) have "find_slot f (fd_looper_info g) < length (fd_looper_info g)"
    by simp
  with fs assms(3,4) show ?thesis
    by (simp add: setUpDataLooperThread_def setUpDataLooperThread_locked_def Let_def
        await_init_done_left_in_slot)
qed

text \<open>
  Claim C4. The claim: a set-up call that has created its thread does not return
  before that thread has stored a value other than 0 in its flag, and it returns 0
  exactly when the value the thread leaves in the flag is 1, and that value otherwise.
  The code: the path for a new slot stores 0 in both flags before the thread is
  created; the path for a slot found in the table stores nothing in them, so the poll
  starts from the value that an earlier thread left there. From the initial state:
  a set-up call for descriptor 7 whose thread stores nothing never returns; when the
  thread stores 1, the call returns 0 and the flag of slot 0 is 1. A second set-up call
  for descriptor 7 then finds slot 0, loads the 1 left there and returns 0 on loads
  that precede every store of the new thread, whatever that thread stores later (-240,
  say, when its start fails). The same holds for the event thread, and for a data
  listener that is set up again after \<^verbatim>\<open>destroyDataLooperThread\<close> while the event
  listener keeps the slot: \<^verbatim>\<open>destroyDataLooperThread\<close> leaves \<^verbatim>\<open>data_init_done\<close> at 1.
\<close>

theorem set_up_returns_on_flag_left_in_slot:
  "(\<exists>g. setUpDataLooperThread initial_globals (ok_spawn 11) [] 7 = Inr (None, g))
   \<and> (\<exists>g1 g2.
        setUpDataLooperThread initial_globals (ok_spawn 11) [Some 1] 7 = Inr (Some 0, g1)
      \<and> data_init_done (fd_looper_info g1 ! 0) = 1
      \<and> setUpDataLooperThread g1 (ok_spawn 12) (None # None # rest) 7 = Inr (Some 0, g2)
      \<and> setUpDataLooperThread g1 (ok_spawn 12) [None, None, Some (- 240)] 7
           = Inr (Some 0, g2)
      \<and> data_thread_id (fd_looper_info g2 ! 0) = 12)
   \<and> (\<exists>g1 g2.
        setUpEventLooperThread initial_globals (ok_spawn 11) [Some 1] 7 = Inr (Some 0, g1)
      \<and> event_init_done (fd_looper_info g1 ! 0) = 1
      \<and> setUpEventLooperThread g1 (ok_spawn 12) (None # None # rest) 7 = Inr (Some 0, g2)
      \<and> event_thread_id (fd_looper_info g2 ! 0) = 12)
   \<and> (\<exists>g1 g2 g3 g4.
        setUpEventLooperThread initial_globals (ok_spawn 10) [Some 1] 7 = Inr (Some 0, g1)
      \<and> setUpDataLooperThread g1 (ok_spawn 11) [None, Some 1] 7 = Inr (Some 0, g2)
      \<and> destroyDataLooperThread g2 \<lparr>kill_ret = 0, join_ret = 0\<rparr> 7 = Inr (0, g3)
      \<and> fd (fd_looper_info g3 ! 0) = 7
      \<and> data_thread_id (fd_looper_info g3 ! 0) = 0
      \<and> data_init_done (fd_looper_info g3 ! 0) = 1
      \<and> setUpDataLooperThread g3 (ok_spawn 12) (None # None # rest) 7 = Inr (Some 0, g4)
      \<and> data_thread_id (fd_looper_info g4 ! 0) = 12)"
  by (simp add: setUpDataLooperThread_def setUpDataLooperThread_locked_def
      setUpEventLooperThread_def setUpEventLooperThread_locked_def
      destroyDataLooperThread_def initial_globals_def
      ok_spawn_def find_slot_fresh_table find_slot_first_slot zero_params_def new_params_def
      await_init_done_def Let_def MAX_NUM_THREADS_pos)

end
